theory Spec2Isabelle
  imports Main
begin

section \<open>JavaScript values\<close>

text \<open>
  Tokens, coerced values and error payloads of \<^verbatim>\<open>Kitsune.js\<close> are JavaScript
  values. The fragment represented here:
  \<^item> \<open>Undefined\<close>, \<open>Null\<close>, booleans and strings (a string is a list of code units
    below 256);
  \<^item> the Number values without a fraction: \<open>Number n\<close> is the Number value for the
    integer \<open>n\<close>, that is the double nearest to \<open>n\<close> (\<open>round_double\<close> below; \<open>n\<close>
    itself up to \<open>2^53\<close>), \<open>Infinity\<close> and \<open>MinusInfinity\<close> are the two infinite
    ones, and \<open>NaN\<close>; the two zeros are one value. Integers with the same double name
    one value; \<open>parseInt\<close> returns the double itself;
  \<^item> \<open>Array xs\<close>, an array without holes or extra properties;
  \<^item> \<open>Object r\<close>, a plain object whose only own property is \<^verbatim>\<open>required\<close>, with
    value \<open>r\<close> (the one property the parser ever reads from a token).
  Wrapper objects (\<^verbatim>\<open>new String(..)\<close>, \<^verbatim>\<open>new Number(..)\<close>), numbers with a fraction
  and functions are not represented.
\<close>

datatype jsval =
    Undefined
  | Null
  | Boolean bool
  | Number int
  | NaN
  | Infinity
  | MinusInfinity
  | Str string
  | Array "jsval list"
  | Object jsval

text \<open>Truthiness, as \<^verbatim>\<open>if (v)\<close>, \<^verbatim>\<open>!v\<close> and \<^verbatim>\<open>a && b\<close> read a value.\<close>

fun truthy :: "jsval \<Rightarrow> bool" where
  "truthy Undefined = False"
| "truthy Null = False"
| "truthy (Boolean b) = b"
| "truthy (Number n) = (n \<noteq> 0)"
| "truthy NaN = False"
| "truthy Infinity = True"
| "truthy MinusInfinity = True"
| "truthy (Str s) = (s \<noteq> [])"
| "truthy (Array xs) = True"
| "truthy (Object r) = True"

fun typeof :: "jsval \<Rightarrow> string" where
  "typeof Undefined = ''undefined''"
| "typeof Null = ''object''"
| "typeof (Boolean b) = ''boolean''"
| "typeof (Number n) = ''number''"
| "typeof NaN = ''number''"
| "typeof Infinity = ''number''"
| "typeof MinusInfinity = ''number''"
| "typeof (Str s) = ''string''"
| "typeof (Array xs) = ''object''"
| "typeof (Object r) = ''object''"

text \<open>\<^verbatim>\<open>Array.isArray(v)\<close>.\<close>

fun isArray :: "jsval \<Rightarrow> bool" where
  "isArray (Array xs) = True"
| "isArray v = False"

text \<open>
  \<^verbatim>\<open>v instanceof String\<close> and \<^verbatim>\<open>v instanceof Number\<close> hold of wrapper objects only,
  so of no value of the fragment.
\<close>

fun instanceof_String :: "jsval \<Rightarrow> bool" where
  "instanceof_String v = False"

fun instanceof_Number :: "jsval \<Rightarrow> bool" where
  "instanceof_Number v = False"

subsection \<open>Number values of integers\<close>

text \<open>The number of binary digits of a positive integer.\<close>

function bit_length :: "int \<Rightarrow> nat" where
  "bit_length n = (if n \<le> 0 then 0 else Suc (bit_length (n div 2)))"
  by pat_completeness auto
termination
  by (relation "measure nat") auto

text \<open>
  The Number value for an integer \<open>n \<ge> 0\<close>: the nearest double, a tie going to the even
  significand of 53 bits, and \<open>None\<close> for \<^verbatim>\<open>Infinity\<close>, which every rounded value from
  \<open>2^1024\<close> on becomes.
\<close>

definition round_double :: "int \<Rightarrow> int option" where
  "round_double n =
     (if n < 2 ^ 53 then Some n
      else
        (let e = bit_length n - 53;
             q = n div 2 ^ e;
             r = n mod 2 ^ e;
             half = 2 ^ (e - 1);
             q' = (if half < r \<or> (r = half \<and> odd q) then q + 1 else q);
             v = q' * 2 ^ e
         in if 2 ^ 1024 \<le> v then None else Some v))"

subsection \<open>Conversion to string\<close>

definition digit_char :: "nat \<Rightarrow> char" where
  "digit_char d = char_of (48 + d)"

text \<open>The decimal digits of an integer \<open>n \<ge> 0\<close>.\<close>

function digits_of :: "int \<Rightarrow> string" where
  "digits_of n =
     (if n < 10 then [digit_char (nat n)]
      else digits_of (n div 10) @ [digit_char (nat (n mod 10))])"
  by pat_completeness auto
termination
  by (relation "measure nat") auto

text \<open>
  \<^verbatim>\<open>Number::toString\<close> of a finite double \<open>v\<close> without a fraction. The digits are
  those of the decimal with the fewest significant digits whose Number value is \<open>v\<close>,
  the one nearest to \<open>v\<close> of two: \<open>shortest_decimal\<close> tries the multiples of
  \<open>10^e\<close> on either side of \<open>v\<close>, from one significant digit on. A decimal of at most
  21 digits is written in full, a longer one with an exponent.
\<close>

fun shortest_decimal :: "int \<Rightarrow> nat list \<Rightarrow> int" where
  "shortest_decimal v [] = v"
| "shortest_decimal v (e # es) =
     (let lo = (v div 10 ^ e) * 10 ^ e;
          hi = lo + 10 ^ e;
          lo_ok = (round_double lo = Some v);
          hi_ok = (round_double hi = Some v)
      in if lo_ok \<and> hi_ok then (if v - lo \<le> hi - v then lo else hi)
         else if lo_ok then lo
         else if hi_ok then hi
         else shortest_decimal v es)"

definition strip_zeros :: "string \<Rightarrow> string" where
  "strip_zeros ds = rev (dropWhile (\<lambda>c. c = CHR ''0'') (rev ds))"

definition Number_toString :: "int \<Rightarrow> string" where
  "Number_toString v =
     (let w = shortest_decimal v (rev [0..<length (digits_of v)]);
          ds = digits_of w;
          n = length ds;
          s = strip_zeros ds
      in if n \<le> 21 then ds
         else if length s = 1 then s @ ''e+'' @ digits_of (int n - 1)
         else hd s # CHR ''.'' # tl s @ ''e+'' @ digits_of (int n - 1))"

fun join_comma :: "string list \<Rightarrow> string" where
  "join_comma [] = []"
| "join_comma [s] = s"
| "join_comma (s # t # rest) = s @ '','' @ join_comma (t # rest)"

text \<open>
  \<^verbatim>\<open>String(v)\<close>. An array is joined with commas, \<^verbatim>\<open>undefined\<close> and \<^verbatim>\<open>null\<close>
  elements giving the empty string.
\<close>

fun ToString :: "jsval \<Rightarrow> string" where
  "ToString Undefined = ''undefined''"
| "ToString Null = ''null''"
| "ToString (Boolean b) = (if b then ''true'' else ''false'')"
| "ToString (Number n) =
     (case round_double \<bar>n\<bar> of
        None \<Rightarrow> (if n < 0 then ''-Infinity'' else ''Infinity'')
      | Some v \<Rightarrow> (if n < 0 then CHR ''-'' # Number_toString v else Number_toString v))"
| "ToString NaN = ''NaN''"
| "ToString Infinity = ''Infinity''"
| "ToString MinusInfinity = ''-Infinity''"
| "ToString (Str s) = s"
| "ToString (Array xs) =
     join_comma (map (\<lambda>x. if x = Undefined then [] else if x = Null then [] else ToString x) xs)"
| "ToString (Object r) = ''[object Object]''"

subsection \<open>Numeric strings: \<^verbatim>\<open>isNaN\<close> and \<^verbatim>\<open>parseInt\<close>\<close>

definition code_of :: "char \<Rightarrow> nat" where
  "code_of c = of_char c"

text \<open>White space and line terminators among the code units below 256.\<close>

definition is_space :: "char \<Rightarrow> bool" where
  "is_space c = (code_of c \<in> {9, 10, 11, 12, 13, 32, 160})"

text \<open>The value of a digit in radix 36, if the character is one.\<close>

definition digit_val :: "char \<Rightarrow> nat option" where
  "digit_val c =
     (let n = code_of c in
      if 48 \<le> n \<and> n \<le> 57 then Some (n - 48)
      else if 97 \<le> n \<and> n \<le> 122 then Some (n - 87)
      else if 65 \<le> n \<and> n \<le> 90 then Some (n - 55)
      else None)"

definition is_digit :: "nat \<Rightarrow> char \<Rightarrow> bool" where
  "is_digit radix c = (case digit_val c of None \<Rightarrow> False | Some d \<Rightarrow> d < radix)"

definition strip_sign :: "string \<Rightarrow> string" where
  "strip_sign s = (case s of [] \<Rightarrow> [] | c # rest \<Rightarrow> if c = CHR ''+'' \<or> c = CHR ''-'' then rest else s)"

definition trim_start :: "string \<Rightarrow> string" where
  "trim_start s = dropWhile is_space s"

definition trim :: "string \<Rightarrow> string" where
  "trim s = rev (dropWhile is_space (rev (dropWhile is_space s)))"

text \<open>
  The grammar \<^verbatim>\<open>StringNumericLiteral\<close> of \<^verbatim>\<open>Number(string)\<close>, whose strings are the
  ones that do not convert to \<^verbatim>\<open>NaN\<close>: white space around nothing, around a signed
  decimal literal (with \<^verbatim>\<open>Infinity\<close>, a fraction, an exponent), or around an unsigned
  binary, octal or hexadecimal integer.
\<close>

definition digits_1 :: "nat \<Rightarrow> string \<Rightarrow> bool" where
  "digits_1 radix s = (s \<noteq> [] \<and> list_all (is_digit radix) s)"

definition ExponentPart_opt :: "string \<Rightarrow> bool" where
  "ExponentPart_opt s =
     (case s of [] \<Rightarrow> True
      | c # rest \<Rightarrow> (c = CHR ''e'' \<or> c = CHR ''E'') \<and> digits_1 10 (strip_sign rest))"

definition StrUnsignedDecimalLiteral :: "string \<Rightarrow> bool" where
  "StrUnsignedDecimalLiteral s =
     (if s = ''Infinity'' then True
      else
        (let ip = takeWhile (is_digit 10) s; r = dropWhile (is_digit 10) s in
         case r of
           [] \<Rightarrow> ip \<noteq> []
         | c # r2 \<Rightarrow>
             if c = CHR ''.''
             then (let fp = takeWhile (is_digit 10) r2; r3 = dropWhile (is_digit 10) r2 in
                   (ip \<noteq> [] \<or> fp \<noteq> []) \<and> ExponentPart_opt r3)
             else ip \<noteq> [] \<and> ExponentPart_opt r))"

definition NonDecimalIntegerLiteral :: "string \<Rightarrow> bool" where
  "NonDecimalIntegerLiteral s =
     (case s of
        c0 # c1 # rest \<Rightarrow>
          c0 = CHR ''0'' \<and>
          (if c1 = CHR ''x'' \<or> c1 = CHR ''X'' then digits_1 16 rest
           else if c1 = CHR ''o'' \<or> c1 = CHR ''O'' then digits_1 8 rest
           else if c1 = CHR ''b'' \<or> c1 = CHR ''B'' then digits_1 2 rest
           else False)
      | _ \<Rightarrow> False)"

definition StringNumericLiteral :: "string \<Rightarrow> bool" where
  "StringNumericLiteral s =
     (let t = trim s in
      t = [] \<or> NonDecimalIntegerLiteral t \<or> StrUnsignedDecimalLiteral (strip_sign t))"

text \<open>\<^verbatim>\<open>isNaN(v)\<close>: whether \<^verbatim>\<open>Number(v)\<close> is \<^verbatim>\<open>NaN\<close>.\<close>

fun isNaN :: "jsval \<Rightarrow> bool" where
  "isNaN Undefined = True"
| "isNaN Null = False"
| "isNaN (Boolean b) = False"
| "isNaN (Number n) = False"
| "isNaN NaN = True"
| "isNaN Infinity = False"
| "isNaN MinusInfinity = False"
| "isNaN (Str s) = (\<not> StringNumericLiteral s)"
| "isNaN (Array xs) = (\<not> StringNumericLiteral (ToString (Array xs)))"
| "isNaN (Object r) = (\<not> StringNumericLiteral (ToString (Object r)))"

text \<open>
  \<^verbatim>\<open>parseInt(v)\<close> with no radix: the string of \<open>v\<close>, leading white space and one sign
  dropped, a \<^verbatim>\<open>0x\<close> prefix selecting radix 16, then the longest run of digits; no digit
  gives \<^verbatim>\<open>NaN\<close>. The result is the Number value for the integer the digits spell, all
  of them read (the language lets an implementation read the decimal digits after the
  twentieth as zeros).
\<close>

fun digits_value :: "nat \<Rightarrow> int \<Rightarrow> string \<Rightarrow> int" where
  "digits_value radix acc [] = acc"
| "digits_value radix acc (c # cs) =
     digits_value radix
       (acc * int radix + (case digit_val c of None \<Rightarrow> 0 | Some d \<Rightarrow> int d)) cs"

definition has_hex_prefix :: "string \<Rightarrow> bool" where
  "has_hex_prefix s = (take 2 s = ''0x'' \<or> take 2 s = ''0X'')"

definition parseInt :: "jsval \<Rightarrow> jsval" where
  "parseInt v =
     (let s0 = trim_start (ToString v);
          negative = (take 1 s0 = ''-'');
          s1 = strip_sign s0;
          radix = (if has_hex_prefix s1 then 16 else 10);
          s2 = (if has_hex_prefix s1 then drop 2 s1 else s1);
          z = takeWhile (is_digit radix) s2
      in if z = [] then NaN
         else (case round_double (digits_value radix 0 z) of
                 None \<Rightarrow> (if negative then MinusInfinity else Infinity)
               | Some v \<Rightarrow> Number ((if negative then - 1 else 1) * v)))"

section \<open>Errors\<close>

text \<open>
  A slot's \<^verbatim>\<open>type\<close> is one type name or a list of type names
  (\<^verbatim>\<open>Array.isArray(type)\<close> tells them apart).
\<close>

datatype slot_type = Single string | Union "string list"

text \<open>
  What the code throws. \<open>KitsuneParserArgumentError value index type message\<close> carries
  the fields its constructor stores, \<open>None\<close> standing for \<^verbatim>\<open>undefined\<close>;
  \<open>TypeError\<close> is the runtime's own error for a property read on \<^verbatim>\<open>undefined\<close> or
  \<^verbatim>\<open>null\<close>, which carries none of these fields.
\<close>

datatype error =
    KitsuneParserArgumentError jsval int "slot_type option" "string option"
  | KitsuneParserMessageError string
  | TypeError

section \<open>The type registry\<close>

record 'o KitsuneParserType =
  name :: string
  info :: "string option"
  exec :: "jsval \<Rightarrow> 'o \<Rightarrow> jsval"
  check :: "jsval \<Rightarrow> 'o \<Rightarrow> bool"

text \<open>
  \<^verbatim>\<open>this.types\<close> is a \<^verbatim>\<open>Collection\<close>, a \<^verbatim>\<open>Map\<close> in insertion order: an association
  list whose keys are type names.
\<close>

type_synonym 'o types = "(string \<times> 'o KitsuneParserType) list"

text \<open>
  \<^verbatim>\<open>Map.prototype.delete\<close> takes any value for the key. \<^verbatim>\<open>removeType\<close> calls it
  with what \<^verbatim>\<open>findType\<close> returned: a descriptor object or \<^verbatim>\<open>undefined\<close>.
\<close>

datatype 'o mapkey =
    KeyString string
  | KeyObject "'o KitsuneParserType"
  | KeyUndefined

fun Collection_find :: "('v \<Rightarrow> 'k \<Rightarrow> bool) \<Rightarrow> ('k \<times> 'v) list \<Rightarrow> 'v option" where
  "Collection_find fn [] = None"
| "Collection_find fn ((key, val) # rest) =
     (if fn val key then Some val else Collection_find fn rest)"

fun Map_set :: "'k \<Rightarrow> 'v \<Rightarrow> ('k \<times> 'v) list \<Rightarrow> ('k \<times> 'v) list" where
  "Map_set k v [] = [(k, v)]"
| "Map_set k v ((key, val) # rest) =
     (if key = k then (k, v) # rest else (key, val) # Map_set k v rest)"

text \<open>
  The key comparison of \<^verbatim>\<open>Map\<close>, between a key of the registry (a string) and the
  value handed to \<^verbatim>\<open>delete\<close>: a string is the same value as a string with the same
  code units, and as no object and not as \<^verbatim>\<open>undefined\<close>.
\<close>

fun SameValueZero :: "string \<Rightarrow> 'o mapkey \<Rightarrow> bool" where
  "SameValueZero key (KeyString k) = (key = k)"
| "SameValueZero key (KeyObject d) = False"
| "SameValueZero key KeyUndefined = False"

definition Map_delete :: "'o mapkey \<Rightarrow> 'o types \<Rightarrow> 'o types" where
  "Map_delete k m = filter (\<lambda>(key, val). \<not> SameValueZero key k) m"

text \<open>The two descriptors the constructor registers.\<close>

definition string_type :: "'o KitsuneParserType" where
  "string_type =
     \<lparr>name = ''string'', info = Some ''String'',
      exec = (\<lambda>val opts. Str (ToString val)),
      check = (\<lambda>val opts. typeof val = ''string'' \<or> instanceof_String val)\<rparr>"

definition number_type :: "'o KitsuneParserType" where
  "number_type =
     \<lparr>name = ''number'', info = Some ''Number'',
      exec = (\<lambda>val opts. parseInt val),
      check = (\<lambda>val opts. \<not> isNaN val \<or> typeof val = ''number'' \<or> instanceof_Number val)\<rparr>"

definition KitsuneParser :: "'o types" where
  "KitsuneParser = [(''string'', string_type), (''number'', number_type)]"

text \<open>
  \<^verbatim>\<open>addType({name, info, exec, check})\<close>: a missing property is \<open>None\<close>. The result
  pairs what the call throws, if anything, with the registry it leaves.
\<close>

definition addType ::
  "string option \<Rightarrow> string option \<Rightarrow> (jsval \<Rightarrow> 'o \<Rightarrow> jsval) option \<Rightarrow>
   (jsval \<Rightarrow> 'o \<Rightarrow> bool) option \<Rightarrow> 'o types \<Rightarrow> error option \<times> 'o types" where
  "addType a_name a_info a_exec a_check types =
     (if a_name = None \<or> a_name = Some [] \<or> a_exec = None \<or> a_check = None
      then (Some (KitsuneParserMessageError ''Cannot add type. No name, execution or checker.''), types)
      else (None,
            Map_set (the a_name)
              \<lparr>name = the a_name, info = a_info, exec = the a_exec, check = the a_check\<rparr> types))"

definition findType :: "'o types \<Rightarrow> string \<Rightarrow> 'o KitsuneParserType option" where
  "findType types type = Collection_find (\<lambda>v key. type = key) types"

definition removeType :: "string \<Rightarrow> 'o types \<Rightarrow> 'o types" where
  "removeType type types =
     (let findedType = findType types type in
      Map_delete (case findedType of None \<Rightarrow> KeyUndefined | Some t \<Rightarrow> KeyObject t) types)"

text \<open>
  \<^verbatim>\<open>parseType\<close> returns \<^verbatim>\<open>{ value: .. }\<close> or \<^verbatim>\<open>{ check }\<close>; an unregistered
  type name makes \<^verbatim>\<open>type.check\<close> a property read on \<^verbatim>\<open>undefined\<close>.
\<close>

datatype outcome = Value jsval | Check bool

definition parseType :: "'o types \<Rightarrow> string \<Rightarrow> jsval \<Rightarrow> 'o \<Rightarrow> error + outcome" where
  "parseType types typeName val options =
     (case findType types typeName of
        None \<Rightarrow> Inl TypeError
      | Some type \<Rightarrow>
          (let chk = check type val options in
           if chk then Inr (Value (exec type val options)) else Inr (Check chk)))"

section \<open>The parser\<close>

text \<open>
  One element of \<^verbatim>\<open>usage\<close>, destructured as
  \<^verbatim>\<open>{ type, required, count, ...otherOptions }\<close>. \<open>required\<close> is any value (an
  omitted one is \<open>Undefined\<close>); \<open>count\<close> is a natural number or omitted (\<open>None\<close>);
  the remaining properties are an opaque bag handed to \<open>check\<close> and \<open>exec\<close>.
\<close>

record 'o usage_slot =
  type :: slot_type
  required :: jsval
  count :: "nat option"
  otherOptions :: 'o

datatype 'o usage = UsageArray "'o usage_slot list" | NotAnArray

text \<open>The property read \<^verbatim>\<open>arg.required\<close> on a token.\<close>

fun get_required :: "jsval \<Rightarrow> error + jsval" where
  "get_required Undefined = Inl TypeError"
| "get_required Null = Inl TypeError"
| "get_required (Object r) = Inr r"
| "get_required v = Inr Undefined"

text \<open>\<^verbatim>\<open>array.map(f)\<close> for an \<open>f\<close> that may throw: the first throw ends the call.\<close>

fun map_throw :: "('a \<Rightarrow> error + 'b) \<Rightarrow> 'a list \<Rightarrow> error + 'b list" where
  "map_throw f [] = Inr []"
| "map_throw f (x # xs) =
     (case f x of
        Inl e \<Rightarrow> Inl e
      | Inr y \<Rightarrow> (case map_throw f xs of Inl e \<Rightarrow> Inl e | Inr ys \<Rightarrow> Inr (y # ys)))"

text \<open>\<^verbatim>\<open>findLastIndex\<close>: the loop \<^verbatim>\<open>while (l--)\<close> from \<open>l = array.length\<close>.\<close>

fun findLastIndex_loop :: "'a list \<Rightarrow> ('a \<Rightarrow> bool) \<Rightarrow> nat \<Rightarrow> int" where
  "findLastIndex_loop array predicate 0 = - 1"
| "findLastIndex_loop array predicate (Suc l) =
     (if predicate (array ! l) then int l else findLastIndex_loop array predicate l)"

definition findLastIndex :: "'a list \<Rightarrow> ('a \<Rightarrow> bool) \<Rightarrow> int" where
  "findLastIndex array predicate = findLastIndex_loop array predicate (length array)"

text \<open>
  The checks of lines 137 to 148, on \<^verbatim>\<open>requiredArray = args.map(arg => arg.required)\<close>:
  the array is read from the tokens \<open>args\<close>.
\<close>

definition check_required :: "jsval list \<Rightarrow> error option" where
  "check_required args =
     (case map_throw get_required args of
        Inl e \<Rightarrow> Some e
      | Inr requiredArray \<Rightarrow>
          (let len = length (filter (\<lambda>val. val = Boolean False) requiredArray);
               pos = findLastIndex requiredArray (\<lambda>val. val = Boolean False)
           in if len > 1
              then Some (KitsuneParserArgumentError Undefined pos None
                           (Some ''Non-required argument must be only one.''))
              else if pos < int (length requiredArray) - 1 \<and> pos \<noteq> - 1
              then Some (KitsuneParserArgumentError Undefined pos None
                           (Some ''Non-required argument must be at the end of the arguments array.''))
              else None))"

text \<open>
  \<^verbatim>\<open>count ? args.slice(usageIndex, usageIndex + count) : args[usageIndex]\<close>: a count
  of 0 is falsy, and a read past the end of \<open>args\<close> gives \<^verbatim>\<open>undefined\<close>.
\<close>

fun count_given :: "nat option \<Rightarrow> bool" where
  "count_given None = False"
| "count_given (Some c) = (c \<noteq> 0)"

definition argToParse_of :: "jsval list \<Rightarrow> nat \<Rightarrow> nat option \<Rightarrow> jsval" where
  "argToParse_of args usageIndex cnt =
     (if count_given cnt then Array (take (the cnt) (drop usageIndex args))
      else if usageIndex < length args then args ! usageIndex
      else Undefined)"

text \<open>
  \<open>result\<close> is one outcome of \<open>parseType\<close>, or the array of outcomes of a window.
  Both are objects, so \<^verbatim>\<open>if (resultType)\<close> holds of either.
\<close>

datatype result = One outcome | Many "outcome list"

fun truthy_result :: "result \<Rightarrow> bool" where
  "truthy_result (One r) = True"
| "truthy_result (Many rs) = True"

fun elements :: "jsval \<Rightarrow> jsval list" where
  "elements (Array xs) = xs"
| "elements v = []"

text \<open>
  The statement the two branches of the type test share (lines 158 to 162 and 169 to
  173): \<open>parseType\<close> on the token, or on every token of an array.
\<close>

definition parseArg :: "'o types \<Rightarrow> string \<Rightarrow> jsval \<Rightarrow> 'o \<Rightarrow> error + result" where
  "parseArg types typeName argToParse options =
     (if \<not> isArray argToParse
      then (case parseType types typeName argToParse options of
              Inl e \<Rightarrow> Inl e
            | Inr r \<Rightarrow> Inr (One r))
      else (case map_throw (\<lambda>arg. parseType types typeName arg options) (elements argToParse) of
              Inl e \<Rightarrow> Inl e
            | Inr rs \<Rightarrow> Inr (Many rs)))"

text \<open>
  \<^verbatim>\<open>type.some(typeName => ..)\<close>: the callback returns \<^verbatim>\<open>true\<close>, ending the
  iteration, when \<^verbatim>\<open>resultType\<close> is truthy. \<open>None\<close> is \<^verbatim>\<open>isParsed === false\<close>.
\<close>

fun some_type :: "'o types \<Rightarrow> string list \<Rightarrow> jsval \<Rightarrow> 'o \<Rightarrow> error + result option" where
  "some_type types [] argToParse options = Inr None"
| "some_type types (typeName # rest) argToParse options =
     (case parseArg types typeName argToParse options of
        Inl e \<Rightarrow> Inl e
      | Inr resultType \<Rightarrow>
          if truthy_result resultType then Inr (Some resultType)
          else some_type types rest argToParse options)"

definition resolve :: "'o types \<Rightarrow> slot_type \<Rightarrow> jsval \<Rightarrow> 'o \<Rightarrow> nat \<Rightarrow> error + result" where
  "resolve types ty argToParse options usageIndex =
     (case ty of
        Single typeName \<Rightarrow> parseArg types typeName argToParse options
      | Union typeNames \<Rightarrow>
          (case some_type types typeNames argToParse options of
             Inl e \<Rightarrow> Inl e
           | Inr None \<Rightarrow>
               Inl (KitsuneParserArgumentError argToParse (int usageIndex) (Some ty) None)
           | Inr (Some result) \<Rightarrow> Inr result))"

text \<open>\<^verbatim>\<open>o.check === undefined\<close> and \<^verbatim>\<open>o.value\<close> on an outcome.\<close>

fun check_undefined :: "outcome \<Rightarrow> bool" where
  "check_undefined (Value v) = True"
| "check_undefined (Check c) = False"

fun value_of :: "outcome \<Rightarrow> jsval" where
  "value_of (Value v) = v"
| "value_of (Check c) = Undefined"

text \<open>\<^verbatim>\<open>a[i]\<close> on the window.\<close>

fun element_at :: "jsval \<Rightarrow> nat \<Rightarrow> jsval" where
  "element_at (Array xs) i = (if i < length xs then xs ! i else Undefined)"
| "element_at (Str s) i = (if i < length s then Str [s ! i] else Undefined)"
| "element_at v i = Undefined"

text \<open>\<^verbatim>\<open>result.length < count\<close>; a comparison with \<^verbatim>\<open>undefined\<close> is false.\<close>

fun length_less :: "nat \<Rightarrow> nat option \<Rightarrow> bool" where
  "length_less n None = False"
| "length_less n (Some c) = (n < c)"

text \<open>
  Lines 189 to 205: the errors of an array of outcomes, the error of a single failed
  outcome of a required slot, and otherwise the value pushed on \<open>parsed\<close>.
\<close>

definition evaluate ::
  "result \<Rightarrow> jsval \<Rightarrow> nat \<Rightarrow> slot_type \<Rightarrow> jsval \<Rightarrow> nat option \<Rightarrow> error + jsval" where
  "evaluate result argToParse usageIndex ty req cnt =
     (case result of
        Many rs \<Rightarrow>
          (let indices = filter (\<lambda>index. \<not> check_undefined (rs ! index)) [0..<length rs] in
           if indices \<noteq> []
           then Inl (KitsuneParserArgumentError (element_at argToParse (hd indices))
                       (int (usageIndex + hd indices)) (Some ty) None)
           else if length_less (length rs) cnt
           then Inl (KitsuneParserArgumentError argToParse (int usageIndex) (Some ty)
                       (Some ''Passed arguments count is not equal to type count.''))
           else Inr (Array (map value_of rs)))
      | One r \<Rightarrow>
          if \<not> check_undefined r \<and> truthy req
          then Inl (KitsuneParserArgumentError argToParse (int usageIndex) (Some ty) None)
          else Inr (value_of r))"

text \<open>
  One call of the \<^verbatim>\<open>forEach\<close> callback, on the state \<open>(parsed, usageIndex)\<close>.
\<close>

definition parse_slot ::
  "'o types \<Rightarrow> jsval list \<Rightarrow> jsval list \<times> nat \<Rightarrow> 'o usage_slot \<Rightarrow> error + jsval list \<times> nat" where
  "parse_slot types args st slot =
     (let parsed = fst st; usageIndex = snd st;
          argToParse = argToParse_of args usageIndex (count slot)
      in case resolve types (type slot) argToParse (otherOptions slot) usageIndex of
           Inl e \<Rightarrow> Inl e
         | Inr result \<Rightarrow>
             (case evaluate result argToParse usageIndex (type slot) (required slot) (count slot) of
                Inl e \<Rightarrow> Inl e
              | Inr v \<Rightarrow>
                  Inr (parsed @ [v],
                       if count_given (count slot) then usageIndex + the (count slot)
                       else usageIndex + 1)))"

fun forEach ::
  "'o types \<Rightarrow> jsval list \<Rightarrow> 'o usage_slot list \<Rightarrow> jsval list \<times> nat \<Rightarrow> error + jsval list \<times> nat" where
  "forEach types args [] st = Inr st"
| "forEach types args (slot # rest) st =
     (case parse_slot types args st slot of
        Inl e \<Rightarrow> Inl e
      | Inr st' \<Rightarrow> forEach types args rest st')"

definition parse :: "'o types \<Rightarrow> jsval list \<Rightarrow> 'o usage \<Rightarrow> error + jsval list" where
  "parse types args usage =
     (case usage of
        NotAnArray \<Rightarrow> Inl (KitsuneParserMessageError ''Parser arguments must be an array.'')
      | UsageArray slots \<Rightarrow>
          (case check_required args of
             Some e \<Rightarrow> Inl e
           | None \<Rightarrow>
               (case forEach types args slots ([], 0) of
                  Inl e \<Rightarrow> Inl e
                | Inr st \<Rightarrow> Inr (fst st))))"

text \<open>A slot of the examples: no property beyond \<open>type\<close>, \<open>required\<close>, \<open>count\<close>.\<close>

definition plain_slot :: "slot_type \<Rightarrow> jsval \<Rightarrow> nat option \<Rightarrow> unit usage_slot" where
  "plain_slot ty req cnt = \<lparr>type = ty, required = req, count = cnt, otherOptions = ()\<rparr>"

section \<open>Properties of the registry\<close>

lemma Map_delete_object: "Map_delete (KeyObject d) types = types"
  by (induction types) (auto simp: Map_delete_def)

lemma Map_delete_undefined: "Map_delete KeyUndefined types = types"
  by (induction types) (auto simp: Map_delete_def)

text \<open>
  \<open>removeType\<close> hands \<open>delete\<close> the descriptor it found, or \<^verbatim>\<open>undefined\<close>, never
  the name: no key of the registry is deleted.
\<close>

lemma removeType_unchanged: "removeType t types = types"
  by (simp add: removeType_def Map_delete_object Map_delete_undefined split: option.splits)

lemma findType_string: "findType (KitsuneParser :: 'o types) ''string'' = Some string_type"
  by (simp add: findType_def KitsuneParser_def)


lemma findType_nosuch: "findType (KitsuneParser :: 'o types) ''nosuch'' = None"
  by (simp add: findType_def KitsuneParser_def)

section \<open>Properties of the loop over the schema\<close>

lemma forEach_append:
  "forEach types args (xs @ ys) st =
     (case forEach types args xs st of Inl e \<Rightarrow> Inl e | Inr st' \<Rightarrow> forEach types args ys st')"
  by (induction xs arbitrary: st) (auto split: sum.splits)



text \<open>\<open>parse\<close> at a slot the loop reaches in state \<open>st\<close>.\<close>

lemma parse_at_slot:
  assumes "check_required args = None"
    and "forEach types args pre ([], 0) = Inr st"
  shows "parse types args (UsageArray (pre @ slot # post)) =
     (case parse_slot types args st slot of
        Inl e \<Rightarrow> Inl e
      | Inr st' \<Rightarrow>
          (case forEach types args post st' of Inl e \<Rightarrow> Inl e | Inr st'' \<Rightarrow> Inr (fst st'')))"
  using assms by (simp add: parse_def forEach_append split: sum.splits)

text \<open>
  \<^verbatim>\<open>if (resultType)\<close> holds of every result, so \<open>some_type\<close> stops at the first type
  name of the list, whatever its check said.
\<close>

lemma truthy_result_always: "truthy_result r"
  by (cases r) simp_all

lemma some_type_first:
  "some_type types (t # ts) a opts =
     (case parseArg types t a opts of Inl e \<Rightarrow> Inl e | Inr r \<Rightarrow> Inr (Some r))"
  by (simp add: truthy_result_always split: sum.splits)

lemma resolve_first:
  assumes "ty = Single t \<or> ty = Union (t # ts)"
  shows "resolve types ty a opts i = parseArg types t a opts"
proof (cases "parseArg types t a opts")
  case (Inl e)
  then show ?thesis using assms by (auto simp: resolve_def truthy_result_always)
next
  case (Inr r)
  then show ?thesis using assms by (auto simp: resolve_def truthy_result_always)
qed


lemma map_throw_values:
  assumes "\<forall>x\<in>set xs. \<exists>v. f x = Inr (Value v)"
  shows "\<exists>rs. map_throw f xs = Inr rs \<and> length rs = length xs \<and> list_all check_undefined rs"
  using assms
proof (induction xs)
  case Nil
  then show ?case by simp
next
  case (Cons x xs)
  then obtain v where v: "f x = Inr (Value v)" by auto
  from Cons obtain rs where rs: "map_throw f xs = Inr rs" "length rs = length xs"
    "list_all check_undefined rs" by auto
  have "map_throw f (x # xs) = Inr (Value v # rs)" using v rs by simp
  then show ?case using rs by simp
qed

lemma no_failed_index:
  assumes "list_all check_undefined rs"
  shows "filter (\<lambda>index. \<not> check_undefined (rs ! index)) [0..<length rs] = []"
  using assms by (auto simp: filter_empty_conv list_all_length)

text \<open>A window that runs short, all of whose tokens pass the check.\<close>

lemma parse_slot_count_mismatch:
  assumes ty: "type slot = Single t \<or> type slot = Union (t # ts)"
    and cnt: "count slot = Some c"
    and few: "length args - i < c"
    and pass: "\<forall>tok\<in>set (drop i args).
                 \<exists>T. findType types t = Some T \<and> check T tok (otherOptions slot)"
  shows "parse_slot types args (parsed, i) slot =
     Inl (KitsuneParserArgumentError (Array (drop i args)) (int i) (Some (type slot))
            (Some ''Passed arguments count is not equal to type count.''))"
proof -
  have c0: "count_given (count slot)" using cnt few by simp
  have w: "argToParse_of args i (count slot) = Array (drop i args)"
    using cnt c0 few by (simp add: argToParse_of_def)
  have "\<forall>tok\<in>set (drop i args). \<exists>v. parseType types t tok (otherOptions slot) = Inr (Value v)"
    using pass by (auto simp: parseType_def)
  from map_throw_values [OF this] obtain rs where
    rs: "map_throw (\<lambda>arg. parseType types t arg (otherOptions slot)) (drop i args) = Inr rs"
      "length rs = length (drop i args)" "list_all check_undefined rs"
    by blast
  have "parseArg types t (Array (drop i args)) (otherOptions slot) = Inr (Many rs)"
    using rs(1) by (simp add: parseArg_def)
  then have r: "resolve types (type slot) (Array (drop i args)) (otherOptions slot) i = Inr (Many rs)"
    by (simp add: resolve_first [OF ty])
  have l: "length_less (length rs) (count slot)" using rs(2) cnt few by simp
  have e: "evaluate (Many rs) (Array (drop i args)) i (type slot) (required slot) (count slot) =
     Inl (KitsuneParserArgumentError (Array (drop i args)) (int i) (Some (type slot))
            (Some ''Passed arguments count is not equal to type count.''))"
    using no_failed_index [OF rs(3)] l by (simp add: evaluate_def)
  show ?thesis
    using w r e by (simp add: parse_slot_def)
qed

lemma map_throw_first:
  assumes "xs \<noteq> []" and "\<forall>x. f x = Inl e"
  shows "map_throw f xs = Inl e"
  using assms by (cases xs) simp_all

text \<open>A type name that is not registered, looked up for at least one token.\<close>

lemma parse_slot_unregistered:
  assumes ty: "type slot = Single t \<or> type slot = Union (t # ts)"
    and reg: "findType types t = None"
    and win: "argToParse_of args i (count slot) \<noteq> Array []"
  shows "parse_slot types args (parsed, i) slot = Inl TypeError"
proof -
  let ?a = "argToParse_of args i (count slot)"
  have pt: "\<forall>x. parseType types t x (otherOptions slot) = Inl TypeError"
    using reg by (simp add: parseType_def)
  have "parseArg types t ?a (otherOptions slot) = Inl TypeError"
  proof (cases "isArray ?a")
    case False
    then show ?thesis using pt by (simp add: parseArg_def)
  next
    case True
    then obtain xs where xs: "?a = Array xs" by (cases ?a) simp_all
    with win have "xs \<noteq> []" by simp
    from map_throw_first [OF this pt] show ?thesis
      using xs by (simp add: parseArg_def)
  qed
  then have "resolve types (type slot) ?a (otherOptions slot) i = Inl TypeError"
    by (simp add: resolve_first [OF ty])
  then show ?thesis by (simp add: parse_slot_def)
qed

text \<open>
  The checks before the loop never look at the schema. On tokens that are strings,
  every \<open>arg.required\<close> is \<^verbatim>\<open>undefined\<close> and both checks pass.
\<close>

lemma findLastIndex_loop_none:
  "\<forall>k<l. \<not> P (xs ! k) \<Longrightarrow> findLastIndex_loop xs P l = - 1"
  by (induction l) simp_all

lemma map_throw_required_strings:
  "list_all (\<lambda>a. typeof a = ''string'') args \<Longrightarrow>
     map_throw get_required args = Inr (map (\<lambda>a. Undefined) args)"
proof (induction args)
  case Nil
  then show ?case by simp
next
  case (Cons a args)
  then have "get_required a = Inr Undefined" by (cases a) simp_all
  then show ?case using Cons by simp
qed

lemma check_required_strings:
  assumes "list_all (\<lambda>a. typeof a = ''string'') args"
  shows "check_required args = None"
proof -
  let ?r = "map (\<lambda>a. Undefined) args"
  have f: "filter (\<lambda>val. val = Boolean False) ?r = []"
    by (simp add: filter_empty_conv)
  have "findLastIndex_loop ?r (\<lambda>val. val = Boolean False) (length ?r) = - 1"
    by (rule findLastIndex_loop_none) simp
  then have p: "findLastIndex ?r (\<lambda>val. val = Boolean False) = - 1"
    by (simp add: findLastIndex_def)
  show ?thesis
    using map_throw_required_strings [OF assms] f p
    by (simp add: check_required_def del: length_map)
qed

section \<open>The claims\<close>

subsection \<open>Schema rules\<close>

text \<open>
  C1. Claimed: a schema with two or more slots with \<open>required === false\<close>, or with one
  such slot that is not last, is rejected before any token is consumed, for every token
  array. The code reads \<open>required\<close> from the tokens, not from the schema slots
  (\<open>check_required\<close> takes \<open>args\<close> only): with the tokens \<open>['a', 'b']\<close>, a schema of
  two optional slots and a schema whose optional slot comes first are both parsed
  without an error.
\<close>

theorem schema_rules_not_enforced:
  "parse KitsuneParser [Str ''a'', Str ''b'']
     (UsageArray [plain_slot (Single ''string'') (Boolean False) None,
                  plain_slot (Single ''string'') (Boolean False) None])
     = Inr [Str ''a'', Str ''b''] \<and>
   parse KitsuneParser [Str ''a'', Str ''b'']
     (UsageArray [plain_slot (Single ''string'') (Boolean False) None,
                  plain_slot (Single ''string'') (Boolean True) None])
     = Inr [Str ''a'', Str ''b'']"
  by code_simp

subsection \<open>Union slots\<close>

text \<open>
  C2. Claimed: for a union slot and a single token, the first type of the list whose
  check is satisfied wins, so a token that fails the first candidate and passes a later
  one is coerced by the later one. In the code the first candidate always ends the
  iteration (\<open>some_type_first\<close>): the token \<open>'abc'\<close> in a required slot of type
  \<open>['number', 'string']\<close> fails the check of \<open>number\<close>, \<open>string\<close> is never tried, and
  the parse raises the argument error of a failed check.
\<close>

theorem union_later_candidate_not_tried:
  "parse KitsuneParser [Str ''abc'']
     (UsageArray [plain_slot (Union [''number'', ''string'']) (Boolean True) None])
     = Inl (KitsuneParserArgumentError (Str ''abc'') 0
              (Some (Union [''number'', ''string''])) None)"
  by code_simp

subsection \<open>Removal from the registry\<close>

text \<open>
  C3. Claimed: after \<open>removeType name\<close>, \<open>findType name\<close> finds nothing. In the code
  \<open>removeType\<close> leaves every registry as it was (\<open>removeType_unchanged\<close>): after
  removing \<open>'string'\<close> from the registry of a new parser, \<open>findType\<close> still returns
  the built-in descriptor.
\<close>

theorem removeType_string_still_found:
  "findType (removeType ''string'' (KitsuneParser :: unit types)) ''string'' = Some string_type"
  by (simp add: removeType_unchanged findType_string)

subsection \<open>An optional slot whose check fails\<close>




subsection \<open>A fixed-count slot that runs short\<close>

text \<open>
  C5, as amended. When the loop reaches, at cursor \<open>i\<close>, a slot with a count \<open>c\<close> and
  fewer than \<open>c\<close> tokens remain, all of which pass the check of the slot's type (the
  single name, or the first name of a list), \<open>parse\<close> raises the argument error that
  carries the window, the cursor position \<open>i\<close>, the slot's type and the message
  \<open>Passed arguments count is not equal to type count.\<close>
\<close>

theorem count_mismatch_error:
  assumes "check_required args = None"
    and "forEach types args pre ([], 0) = Inr (parsed, i)"
    and "type slot = Single t \<or> type slot = Union (t # ts)"
    and "count slot = Some c"
    and "length args - i < c"
    and "\<forall>tok\<in>set (drop i args).
           \<exists>T. findType types t = Some T \<and> check T tok (otherOptions slot)"
  shows "parse types args (UsageArray (pre @ slot # post)) =
     Inl (KitsuneParserArgumentError (Array (drop i args)) (int i) (Some (type slot))
            (Some ''Passed arguments count is not equal to type count.''))"
  using parse_slot_count_mismatch [OF assms(3) assms(4) assms(5) assms(6), of parsed]
    parse_at_slot [OF assms(1) assms(2), of slot post]
  by simp

text \<open>The instance of the claim: three strings declared, two given.\<close>

theorem count_mismatch_error_witness:
  "length [Str ''a'', Str ''b''] - 0 < (3::nat) \<and>
   parse KitsuneParser [Str ''a'', Str ''b'']
     (UsageArray ([] @ plain_slot (Single ''string'') (Boolean True) (Some 3) # []))
     = Inl (KitsuneParserArgumentError (Array [Str ''a'', Str ''b'']) 0 (Some (Single ''string''))
              (Some ''Passed arguments count is not equal to type count.''))"
proof -
  let ?s = "plain_slot (Single ''string'') (Boolean True) (Some 3)"
  let ?args = "[Str ''a'', Str ''b'']"
  have h1: "check_required ?args = None" by code_simp
  have h2: "forEach (KitsuneParser :: unit types) ?args [] ([], 0) = Inr ([], 0)" by simp
  have h3: "type ?s = Single ''string'' \<or> type ?s = Union (''string'' # [])"
    by (simp add: plain_slot_def)
  have h4: "count ?s = Some 3" by (simp add: plain_slot_def)
  have h5: "length ?args - 0 < (3::nat)" by simp
  have h6: "\<forall>tok\<in>set (drop 0 ?args).
              \<exists>T. findType (KitsuneParser :: unit types) ''string'' = Some T \<and>
                  check T tok (otherOptions ?s)"
    by (simp add: findType_string string_type_def)
  from count_mismatch_error [OF h1 h2 h3 h4 h5 h6, of "[]"] h5
  show ?thesis by (simp add: plain_slot_def)
qed

text \<open>The message of the claim is not the one the error carries.\<close>

theorem count_mismatch_message_counterexample:
  "parse KitsuneParser [Str ''a'', Str ''b'']
     (UsageArray [plain_slot (Single ''string'') (Boolean True) (Some 3)])
     = Inl (KitsuneParserArgumentError (Array [Str ''a'', Str ''b'']) 0 (Some (Single ''string''))
              (Some ''Passed arguments count is not equal to type count.'')) \<and>
   parse KitsuneParser [Str ''a'', Str ''b'']
     (UsageArray [plain_slot (Single ''string'') (Boolean True) (Some 3)])
     \<noteq> Inl (KitsuneParserArgumentError (Array [Str ''a'', Str ''b'']) 0 (Some (Single ''string''))
              (Some ''argument count does not match declared count.''))"
  by code_simp

subsection \<open>Registration\<close>

text \<open>
  C6. \<open>addType\<close> with a missing or empty name, a missing check or a missing exec
  throws the message error of a malformed registration and leaves the registry as it
  was.
\<close>

theorem addType_rejects_incomplete:
  assumes "a_name = None \<or> a_name = Some [] \<or> a_check = None \<or> a_exec = None"
  shows "addType a_name a_info a_exec a_check types =
     (Some (KitsuneParserMessageError ''Cannot add type. No name, execution or checker.''), types)"
  using assms by (auto simp: addType_def)

theorem addType_rejects_incomplete_witness:
  "addType (Some []) (Some ''Any'') (Some (\<lambda>val opts. val)) (Some (\<lambda>val opts. True))
       (KitsuneParser :: unit types)
     = (Some (KitsuneParserMessageError ''Cannot add type. No name, execution or checker.''),
        KitsuneParser) \<and>
   addType (Some ''any'') (Some ''Any'') (Some (\<lambda>val opts. val)) None
       (KitsuneParser :: unit types)
     = (Some (KitsuneParserMessageError ''Cannot add type. No name, execution or checker.''),
        KitsuneParser) \<and>
   addType (Some ''string'') None None (Some (\<lambda>val opts. True))
       (KitsuneParser :: unit types)
     = (Some (KitsuneParserMessageError ''Cannot add type. No name, execution or checker.''),
        KitsuneParser)"
  using
    addType_rejects_incomplete [of "Some []" "Some (\<lambda>val opts. True)" "Some (\<lambda>val opts. val)"
      "Some ''Any''" "KitsuneParser :: unit types"]
    addType_rejects_incomplete [of "Some ''any''" None "Some (\<lambda>val opts. val)"
      "Some ''Any''" "KitsuneParser :: unit types"]
    addType_rejects_incomplete [of "Some ''string''" "Some (\<lambda>val opts. True)" None
      None "KitsuneParser :: unit types"]
  by simp

subsection \<open>The built-in types\<close>

text \<open>
  C7. With the built-in descriptors, the tokens \<open>['hello', '42']\<close> under the schema
  \<open>[{string, required: true}, {number, required: true}]\<close> parse to \<open>['hello', 42]\<close>.
\<close>

theorem parse_hello_42:
  "parse KitsuneParser [Str ''hello'', Str ''42'']
     (UsageArray [plain_slot (Single ''string'') (Boolean True) None,
                  plain_slot (Single ''number'') (Boolean True) None])
     = Inr [Str ''hello'', Number 42]"
  by code_simp

text \<open>
  C8. The token \<open>'abc'\<close> under the schema \<open>[{number, required: true}]\<close> raises the
  argument error with value \<open>'abc'\<close>, index 0 and type \<open>'number'\<close>.
\<close>

theorem parse_abc_as_number:
  "parse KitsuneParser [Str ''abc'']
     (UsageArray [plain_slot (Single ''number'') (Boolean True) None])
     = Inl (KitsuneParserArgumentError (Str ''abc'') 0 (Some (Single ''number'')) None)"
  by code_simp

subsection \<open>A type name that is not registered\<close>

text \<open>
  C9, as amended. When the loop reaches a slot whose type name (the single name, or the
  first name of a list) is not in the registry, and the slot's window is not an empty
  array, \<open>parse\<close> fails with the runtime's \<open>TypeError\<close>, none of the parser's own
  errors.
\<close>

theorem unregistered_type_TypeError:
  assumes "check_required args = None"
    and "forEach types args pre ([], 0) = Inr (parsed, i)"
    and "type slot = Single t \<or> type slot = Union (t # ts)"
    and "findType types t = None"
    and "argToParse_of args i (count slot) \<noteq> Array []"
  shows "parse types args (UsageArray (pre @ slot # post)) = Inl TypeError"
  using parse_slot_unregistered [OF assms(3) assms(4) assms(5), of parsed]
    parse_at_slot [OF assms(1) assms(2), of slot post]
  by simp

theorem unregistered_type_TypeError_witness:
  "findType (KitsuneParser :: unit types) ''nosuch'' = None \<and>
   argToParse_of [Str ''x''] 0 None = Str ''x'' \<and>
   parse KitsuneParser [Str ''x'']
     (UsageArray ([] @ plain_slot (Single ''nosuch'') (Boolean True) None # []))
     = Inl TypeError"
proof -
  let ?s = "plain_slot (Single ''nosuch'') (Boolean True) None"
  have h1: "check_required [Str ''x''] = None" by code_simp
  have h2: "forEach (KitsuneParser :: unit types) [Str ''x''] [] ([], 0) = Inr ([], 0)" by simp
  have h3: "type ?s = Single ''nosuch'' \<or> type ?s = Union (''nosuch'' # [])"
    by (simp add: plain_slot_def)
  have a: "argToParse_of [Str ''x''] 0 None = Str ''x''" by (simp add: argToParse_of_def)
  have h5: "argToParse_of [Str ''x''] 0 (count ?s) \<noteq> Array []"
    using a by (simp add: plain_slot_def)
  from unregistered_type_TypeError [OF h1 h2 h3 findType_nosuch h5, of "[]"] a
  show ?thesis by (simp add: findType_nosuch)
qed

text \<open>
  The claim as stated, for every slot that names an unregistered type: with a count and
  no token left, no type is looked up and the parser's own error for a short window is
  raised; and a name that follows a matching candidate in a list is never looked up.
\<close>

theorem unregistered_type_counterexample:
  "parse KitsuneParser []
     (UsageArray [plain_slot (Single ''nosuch'') (Boolean True) (Some 2)])
     = Inl (KitsuneParserArgumentError (Array []) 0 (Some (Single ''nosuch''))
              (Some ''Passed arguments count is not equal to type count.'')) \<and>
   parse KitsuneParser []
     (UsageArray [plain_slot (Single ''nosuch'') (Boolean True) (Some 2)])
     \<noteq> Inl TypeError \<and>
   parse KitsuneParser [Str ''a'']
     (UsageArray [plain_slot (Union [''string'', ''nosuch'']) (Boolean True) None])
     = Inr [Str ''a'']"
  by code_simp

subsection \<open>A slot without \<open>required\<close>\<close>




end
